theory Spec2Isabelle
  imports Complex_Main
begin

section \<open>JSON values as Python sees them\<close>

text \<open>
  \<open>response.json()\<close> yields a Python value. \<open>JNull\<close> is Python's \<open>None\<close>, so an
  identifier that is "unset" is \<open>JNull\<close>. A finite float is the rational it denotes;
  \<open>JNonFinite\<close> stands for \<open>NaN\<close> and the infinities, which Python's decoder accepts.
  A dictionary is an association list read with \<open>map_of\<close>.
\<close>

datatype json =
    JNull
  | JBool bool
  | JInt int
  | JFloat rat
  | JNonFinite
  | JStr string
  | JArr "json list"
  | JObj "(string \<times> json) list"

text \<open>Python truthiness, as tested by \<open>if not self.file_id\<close>.\<close>

fun truthy :: "json \<Rightarrow> bool" where
  "truthy JNull = False"
| "truthy (JBool b) = b"
| "truthy (JInt n) = (n \<noteq> 0)"
| "truthy (JFloat q) = (q \<noteq> 0)"
| "truthy JNonFinite = True"
| "truthy (JStr s) = (s \<noteq> [])"
| "truthy (JArr xs) = (xs \<noteq> [])"
| "truthy (JObj kvs) = (kvs \<noteq> [])"

text \<open>\<open>data.get(k)\<close> on a dictionary: \<open>None\<close> when the key is absent.\<close>

definition py_get :: "(string \<times> json) list \<Rightarrow> string \<Rightarrow> json" where
  "py_get kvs k = (case map_of kvs k of None \<Rightarrow> JNull | Some v \<Rightarrow> v)"

text \<open>
  Only a dictionary has \<open>.get\<close>; on any other decoded value the attribute lookup raises
  \<open>AttributeError\<close>, which none of the \<open>except\<close> clauses of the source catches.
\<close>

fun as_dict :: "json \<Rightarrow> (string \<times> json) list option" where
  "as_dict (JObj kvs) = Some kvs"
| "as_dict _ = None"

section \<open>Responses, events and results\<close>

text \<open>
  A response carries the HTTP status code and the decoded body; \<open>body = None\<close> means
  that \<open>response.json()\<close> raises \<open>JSONDecodeError\<close>.
\<close>

record response =
  status_code :: int
  body :: "json option"

datatype http_method = GET | POST

text \<open>One constructor for each message passed to \<open>response.failure\<close>.\<close>

datatype failure =
    NoFileId
  | UploadParseFailed
  | UploadFailed int
  | MetadataFailed int
  | ContentFailed int
  | BatchParseFailed
  | BatchCreationFailed int
  | UnknownStatus json
  | PollParseFailed
  | PollFailed int
  | OutputFailed int
  | ErrorsFailed int

text \<open>One constructor for each \<open>[ERROR]\<close> line printed while creating the shared key.\<close>

datatype key_error = NoKeyInResponse | KeyParseFailed | KeyCreationFailed int

text \<open>
  What a step does to the outside world, in order: an HTTP call (method and the
  \<open>name\<close> label of the request), \<open>response.success()\<close>, \<open>response.failure(...)\<close>,
  \<open>time.sleep\<close>, the message printed when the poll budget is used up, and an
  \<open>[ERROR]\<close> line. The \<open>[DEBUG]\<close> prints of the source are left out.
\<close>

datatype event =
    Request http_method string
  | Success
  | Failure failure
  | Sleep rat
  | DidNotComplete json nat
  | PrintError key_error

datatype py_error = AttributeError | TypeError | ValueError

datatype outcome = Returned | Interrupted | Raised py_error

record workflow =
  file_id :: json
  batch_id :: json
  output_file_id :: json
  error_file_id :: json
  test_data :: string

record result =
  final :: workflow
  events :: "event list"
  outcome :: outcome

definition stop :: "workflow \<Rightarrow> event list \<Rightarrow> result" where
  "stop s es = \<lparr>final = s, events = es, outcome = Returned\<rparr>"

definition interrupt :: "workflow \<Rightarrow> result" where
  "interrupt s = \<lparr>final = s, events = [], outcome = Interrupted\<rparr>"

definition raise :: "workflow \<Rightarrow> event list \<Rightarrow> py_error \<Rightarrow> result" where
  "raise s es e = \<lparr>final = s, events = es, outcome = Raised e\<rparr>"

text \<open>\<open>emit es r\<close>: the events \<open>es\<close> happen, then the rest of the step \<open>r\<close>.\<close>

definition emit :: "event list \<Rightarrow> result \<Rightarrow> result" where
  "emit es r = r\<lparr>events := es @ events r\<rparr>"

text \<open>The number of HTTP calls of a step, and the failures it records.\<close>

fun is_request :: "event \<Rightarrow> bool" where
  "is_request (Request _ _) = True"
| "is_request _ = False"

definition requests :: "result \<Rightarrow> nat" where
  "requests r = length (filter is_request (events r))"

fun failure_of :: "event \<Rightarrow> failure list" where
  "failure_of (Failure f) = [f]"
| "failure_of _ = []"

definition failures :: "result \<Rightarrow> failure list" where
  "failures r = concat (map failure_of (events r))"

section \<open>BatchWorkflow\<close>

text \<open>
  \<open>load_test_data\<close>: the contents of the data file, or the minimal request line when
  the file does not exist (\<open>file = None\<close>).
\<close>

definition minimal_test_data :: string where
  "minimal_test_data = ''{\"custom_id\": \"req-1\", \"method\": \"POST\", \"url\": \"/v1/chat/completions\", \"body\": {\"model\": \"load-test\", \"messages\": [{\"role\": \"user\", \"content\": \"Hello\"}], \"max_tokens\": 100}}'' @ [CHR 0x0A]"

definition load_test_data :: "string option \<Rightarrow> string" where
  "load_test_data file = (case file of Some txt \<Rightarrow> txt | None \<Rightarrow> minimal_test_data)"

definition on_start :: "string option \<Rightarrow> workflow" where
  "on_start file =
     \<lparr>file_id = JNull, batch_id = JNull, output_file_id = JNull, error_file_id = JNull,
      test_data = load_test_data file\<rparr>"

subsection \<open>Step 1: upload\<close>

definition upload_file :: "workflow \<Rightarrow> response \<Rightarrow> result" where
  "upload_file s r =
     (let req = Request POST ''/ai/v1/files [upload]'' in
      if status_code r \<in> {200, 201} then
        (case body r of
           None \<Rightarrow> stop s [req, Failure UploadParseFailed]
         | Some d \<Rightarrow>
             (case as_dict d of
                None \<Rightarrow> raise s [req] AttributeError
              | Some response_data \<Rightarrow>
                  (let s' = s\<lparr>file_id := py_get response_data ''id''\<rparr> in
                   if \<not> truthy (file_id s') then stop s' [req, Failure NoFileId]
                   else stop s' [req, Success])))
      else stop s [req, Failure (UploadFailed (status_code r))])"

subsection \<open>Step 2: verify\<close>

text \<open>\<open>rnd\<close> is the value returned by \<open>random.random()\<close>.\<close>

definition verify_upload :: "workflow \<Rightarrow> rat \<Rightarrow> response \<Rightarrow> result" where
  "verify_upload s rnd r =
     (if \<not> truthy (file_id s) then interrupt s
      else if rnd < 1 / 2 then
        (let req = Request GET ''/ai/v1/files/{file_id} [metadata]'' in
         if status_code r = 200 then stop s [req, Success]
         else stop s [req, Failure (MetadataFailed (status_code r))])
      else
        (let req = Request GET ''/ai/v1/files/{file_id}/content [verify]'' in
         if status_code r = 200 then stop s [req, Success]
         else stop s [req, Failure (ContentFailed (status_code r))]))"

subsection \<open>Step 3: create batch\<close>

definition create_batch :: "workflow \<Rightarrow> response \<Rightarrow> result" where
  "create_batch s r =
     (if \<not> truthy (file_id s) then interrupt s
      else
        (let req = Request POST ''/ai/v1/batches [create]'' in
         if status_code r \<in> {200, 201} then
           (case body r of
              None \<Rightarrow> stop s [req, Failure BatchParseFailed]
            | Some d \<Rightarrow>
                (case as_dict d of
                   None \<Rightarrow> raise s [req] AttributeError
                 | Some data \<Rightarrow> stop (s\<lparr>batch_id := py_get data ''id''\<rparr>) [req, Success]))
         else stop s [req, Failure (BatchCreationFailed (status_code r))]))"

subsection \<open>Step 4: poll\<close>

definition max_polls :: nat where
  "max_polls = 60"

definition terminal_statuses :: "json list" where
  "terminal_statuses = [JStr ''completed'', JStr ''failed'', JStr ''cancelled'', JStr ''expired'']"

definition running_statuses :: "json list" where
  "running_statuses = [JStr ''in_progress'', JStr ''validating'', JStr ''finalizing'']"

definition poll_request :: event where
  "poll_request = Request GET ''/ai/v1/batches/{batch_id} [poll]''"

text \<open>
  The loop \<open>for i in range(max_polls)\<close>. \<open>srv i\<close> is the server's answer to the status
  request of attempt \<open>i\<close>. The interval starts at \<open>2\<close> and is multiplied by \<open>1.5\<close> and
  capped at \<open>30\<close> after every sleep.
\<close>

function poll_loop :: "nat \<Rightarrow> rat \<Rightarrow> workflow \<Rightarrow> (nat \<Rightarrow> response) \<Rightarrow> result" where
  "poll_loop i poll_interval s srv =
     (if i < max_polls then
        (let r = srv i in
         if status_code r = 200 then
           (case body r of
              None \<Rightarrow> stop s [poll_request, Failure PollParseFailed]
            | Some d \<Rightarrow>
                (case as_dict d of
                   None \<Rightarrow> raise s [poll_request] AttributeError
                 | Some data \<Rightarrow>
                     (let status = py_get data ''status'' in
                      if status \<in> set terminal_statuses then
                        stop (s\<lparr>output_file_id := py_get data ''output_file_id'',
                                 error_file_id := py_get data ''error_file_id''\<rparr>)
                             [poll_request, Success]
                      else if status \<in> set running_statuses then
                        emit [poll_request, Success, Sleep poll_interval]
                          (poll_loop (Suc i) (min (poll_interval * (3 / 2)) 30) s srv)
                      else stop s [poll_request, Failure (UnknownStatus status)])))
         else stop s [poll_request, Failure (PollFailed (status_code r))])
      else stop s [DidNotComplete (batch_id s) max_polls])"
  by pat_completeness auto
termination
  by (relation "measure (\<lambda>(i, _, _, _). max_polls - i)") auto

declare poll_loop.simps [simp del]

definition poll_batch_status :: "workflow \<Rightarrow> (nat \<Rightarrow> response) \<Rightarrow> result" where
  "poll_batch_status s srv =
     (if \<not> truthy (batch_id s) then interrupt s else poll_loop 0 2 s srv)"

subsection \<open>Steps 5 and 6: retrieve output and errors\<close>

definition retrieve_output :: "workflow \<Rightarrow> response \<Rightarrow> result" where
  "retrieve_output s r =
     (if \<not> truthy (output_file_id s) then stop s []
      else
        (let req = Request GET ''/ai/v1/files/{output_file_id}/content [output]'' in
         if status_code r = 200 then stop s [req, Success]
         else stop s [req, Failure (OutputFailed (status_code r))]))"

definition retrieve_errors :: "workflow \<Rightarrow> response \<Rightarrow> result" where
  "retrieve_errors s r =
     (if \<not> truthy (error_file_id s) then stop s []
      else
        (let req = Request GET ''/ai/v1/files/{error_file_id}/content [errors]'' in
         if status_code r = 200 then stop s [req, Success]
         else stop s [req, Failure (ErrorsFailed (status_code r))]))"

section \<open>BatchUser: the shared API key\<close>

text \<open>
  The HTTP client of one user: the basic-auth pair, the \<open>User-Agent\<close> header and the
  token of the \<open>Authorization: Bearer\<close> header, when set.
\<close>

record client =
  auth :: "(string \<times> string) option"
  user_agent :: "string option"
  authorization :: "json option"

text \<open>
  The class variable \<open>BatchUser.shared_api_key\<close> is threaded through: each call takes
  its current value and returns the new one.
\<close>

record user_result =
  shared_api_key :: json
  user_client :: client
  user_events :: "event list"
  user_outcome :: outcome

text \<open>
  The debug line prints \<open>shared_api_key[:20]\<close>; the slice exists for strings and lists
  and raises \<open>TypeError\<close> for the other truthy values (for a dictionary up to
  Python 3.11), after the class variable has been assigned.
\<close>

fun sliceable :: "json \<Rightarrow> bool" where
  "sliceable (JStr _) = True"
| "sliceable (JArr _) = True"
| "sliceable _ = False"

definition key_request :: event where
  "key_request = Request POST ''/admin/api-keys [create-shared]''"

text \<open>
  The part of \<open>_create_shared_api_key\<close> after \<open>self.client.post\<close> has returned the
  answer \<open>r\<close>; \<open>shared\<close> is the class variable at that moment.
\<close>

definition handle_key_response :: "json \<Rightarrow> client \<Rightarrow> response \<Rightarrow> user_result" where
  "handle_key_response shared c r =
     (if status_code r \<in> {200, 201} then
        (case body r of
           None \<Rightarrow>
             \<lparr>shared_api_key = shared, user_client = c,
              user_events = [PrintError KeyParseFailed], user_outcome = Returned\<rparr>
         | Some d \<Rightarrow>
             (case as_dict d of
                None \<Rightarrow>
                  \<lparr>shared_api_key = shared, user_client = c,
                   user_events = [], user_outcome = Raised AttributeError\<rparr>
              | Some response_data \<Rightarrow>
                  (let key = py_get response_data ''key'' in
                   if truthy key then
                     (if sliceable key then
                        \<lparr>shared_api_key = key,
                         user_client = c\<lparr>authorization := Some key, auth := None\<rparr>,
                         user_events = [], user_outcome = Returned\<rparr>
                      else
                        \<lparr>shared_api_key = key, user_client = c,
                         user_events = [], user_outcome = Raised TypeError\<rparr>)
                   else
                     \<lparr>shared_api_key = key, user_client = c,
                      user_events = [PrintError NoKeyInResponse],
                      user_outcome = Returned\<rparr>)))
      else
        \<lparr>shared_api_key = shared, user_client = c,
         user_events = [PrintError (KeyCreationFailed (status_code r))],
         user_outcome = Returned\<rparr>)"

text \<open>\<open>_create_shared_api_key\<close> when nothing else runs between the request and its answer.\<close>

definition create_shared_api_key :: "json \<Rightarrow> client \<Rightarrow> response \<Rightarrow> user_result" where
  "create_shared_api_key shared c r =
     (let u = handle_key_response shared c r in
      u\<lparr>user_events := key_request # user_events u\<rparr>)"

text \<open>The first lines of \<open>BatchUser.on_start\<close>: basic auth and the \<open>User-Agent\<close> header.\<close>

definition initial_client :: "string \<Rightarrow> string \<Rightarrow> client" where
  "initial_client username password =
     \<lparr>auth = Some (username, password),
      user_agent = Some ''Locust-LoadTest/1.0'',
      authorization = None\<rparr>"

text \<open>The \<open>else\<close> branch of \<open>on_start\<close>: the user takes the key that exists.\<close>

definition use_existing_key :: "json \<Rightarrow> client \<Rightarrow> user_result" where
  "use_existing_key shared c =
     \<lparr>shared_api_key = shared,
      user_client = c\<lparr>authorization := Some shared, auth := None\<rparr>,
      user_events = [], user_outcome = Returned\<rparr>"

text \<open>
  \<open>BatchUser.on_start\<close> run without interruption, with the two environment values
  and the answer \<open>r\<close> the server gives if this user asks for a key.
\<close>

definition user_on_start :: "string \<Rightarrow> string \<Rightarrow> json \<Rightarrow> response \<Rightarrow> user_result" where
  "user_on_start username password shared r =
     (let c = initial_client username password in
      if shared = JNull then create_shared_api_key shared c r
      else use_existing_key shared c)"

text \<open>
  A test run. A user waits inside \<open>self.client.post\<close> for the answer, and other users
  run meanwhile; nothing in the source holds a lock (\<open>api_key_lock\<close> is never used).
  The run keeps the class variable, the clients of the users that wait for their
  answer (the one that waits longest first), the users whose \<open>on_start\<close> has ended
  (in the order they ended) and the events so far. Its steps: \<open>Enter\<close>, a new user
  begins \<open>on_start\<close> and runs up to the request, or to the end when a key exists;
  \<open>Answer r\<close>, the user that waits longest receives \<open>r\<close> and runs to the end.
\<close>

record test_run =
  class_key :: json
  in_post :: "client list"
  started :: "user_result list"
  issued :: "event list"

datatype step = Enter | Answer response

fun run_step :: "string \<Rightarrow> string \<Rightarrow> test_run \<Rightarrow> step \<Rightarrow> test_run" where
  "run_step username password t Enter =
     (let c = initial_client username password in
      if class_key t = JNull then
        t\<lparr>in_post := in_post t @ [c], issued := issued t @ [key_request]\<rparr>
      else t\<lparr>started := started t @ [use_existing_key (class_key t) c]\<rparr>)"
| "run_step username password t (Answer r) =
     (case in_post t of
        [] \<Rightarrow> t
      | c # cs \<Rightarrow>
          (let u = handle_key_response (class_key t) c r in
           t\<lparr>class_key := shared_api_key u, in_post := cs,
             started := started t @ [u], issued := issued t @ user_events u\<rparr>))"

definition run_users :: "string \<Rightarrow> string \<Rightarrow> step list \<Rightarrow> test_run" where
  "run_users username password steps =
     foldl (run_step username password)
       \<lparr>class_key = JNull, in_post = [], started = [], issued = []\<rparr> steps"

text \<open>The key-creation requests of a run, and the bearer token of each started user.\<close>

definition key_requests :: "test_run \<Rightarrow> nat" where
  "key_requests t = length (filter (\<lambda>e. e = key_request) (issued t))"

definition tokens :: "test_run \<Rightarrow> json option list" where
  "tokens t = map (\<lambda>u. authorization (user_client u)) (started t)"

section \<open>The run-end hook\<close>

text \<open>
  The two statistics the thresholds are compared with, as the engine reports them:
  \<open>stats.total.get_response_time_percentile(0.95)\<close> and \<open>stats.total.fail_ratio\<close>.
  The number type is left open: only its comparison \<open><\<close> is used.
\<close>

record 'a total_stats =
  p95 :: 'a
  fail_ratio :: 'a

datatype 'a violation = P95Exceeded 'a 'a | ErrorRateExceeded 'a 'a

datatype 'a printed =
    Summary
  | MetricsExported
  | ExportFailed
  | AssertionFailures "'a violation list"
  | AllPassed

record 'a stop_result =
  printed :: "'a printed list"
  stop_outcome :: outcome

definition getenv_default :: "(string \<Rightarrow> string option) \<Rightarrow> string \<Rightarrow> string \<Rightarrow> string" where
  "getenv_default env k d = (case env k of Some v \<Rightarrow> v | None \<Rightarrow> d)"

text \<open>
  \<open>on_test_stop\<close>. \<open>to_float\<close> is Python's \<open>float()\<close> on a string (\<open>None\<close>: it raises
  \<open>ValueError\<close>); \<open>export_ok\<close> tells whether the \<open>try\<close> block that writes the
  metrics file ran through, its \<open>except Exception\<close> printing a line otherwise.
\<close>

definition on_test_stop ::
  "(string \<Rightarrow> ('a::ord) option) \<Rightarrow> (string \<Rightarrow> string option) \<Rightarrow> bool \<Rightarrow> 'a total_stats
     \<Rightarrow> 'a stop_result" where
  "on_test_stop to_float env export_ok stats =
     (let out = [Summary, if export_ok then MetricsExported else ExportFailed] in
      case to_float (getenv_default env ''P95_THRESHOLD_MS'' ''1000'') of
        None \<Rightarrow> \<lparr>printed = out, stop_outcome = Raised ValueError\<rparr>
      | Some p95_threshold_ms \<Rightarrow>
          (case to_float (getenv_default env ''ERROR_RATE_THRESHOLD'' ''0.01'') of
             None \<Rightarrow> \<lparr>printed = out, stop_outcome = Raised ValueError\<rparr>
           | Some error_rate_threshold \<Rightarrow>
               (let failures1 =
                      (if p95 stats > p95_threshold_ms
                       then [P95Exceeded (p95 stats) p95_threshold_ms] else []);
                    failures2 =
                      failures1 @
                      (if fail_ratio stats > error_rate_threshold
                       then [ErrorRateExceeded (fail_ratio stats) error_rate_threshold]
                       else [])
                in
                if failures2 \<noteq> [] then
                  \<lparr>printed = out @ [AssertionFailures failures2], stop_outcome = Returned\<rparr>
                else \<lparr>printed = out @ [AllPassed], stop_outcome = Returned\<rparr>)))"

section \<open>Vocabulary of the properties\<close>

text \<open>
  A response that keeps the loop going: status 200 and a dictionary whose \<open>status\<close>
  is one of \<open>in_progress\<close>, \<open>validating\<close>, \<open>finalizing\<close>.
\<close>

definition running :: "response \<Rightarrow> bool" where
  "running r =
     (status_code r = 200 \<and>
      (case body r of
         Some (JObj data) \<Rightarrow> py_get data ''status'' \<in> set running_statuses
       | _ \<Rightarrow> False))"

text \<open>The update of the interval after a sleep, \<open>min(poll_interval * 1.5, 30)\<close>.\<close>

definition next_interval :: "rat \<Rightarrow> rat" where
  "next_interval x = min (x * (3 / 2)) 30"

text \<open>
  The events of the attempts \<open>j\<close> up to \<open>i - 1\<close> when each of them is answered with a
  running status and attempt \<open>j\<close> starts with the interval \<open>iv\<close>.
\<close>

definition rounds :: "nat \<Rightarrow> nat \<Rightarrow> rat \<Rightarrow> event list" where
  "rounds j i iv =
     concat (map (\<lambda>k. [poll_request, Success, Sleep ((next_interval ^^ (k - j)) iv)]) [j..<i])"

text \<open>The same for the attempts \<open>0\<close> up to \<open>i - 1\<close> of a step, with the interval in closed form.\<close>

definition running_rounds :: "nat \<Rightarrow> event list" where
  "running_rounds i =
     concat (map (\<lambda>k. [poll_request, Success, Sleep (min (2 * (3 / 2) ^ k) 30)]) [0..<i])"

text \<open>Example inputs.\<close>

definition status_response :: "string \<Rightarrow> response" where
  "status_response st = \<lparr>status_code = 200, body = Some (JObj [(''status'', JStr st)])\<rparr>"

definition completed_response :: response where
  "completed_response =
     \<lparr>status_code = 200,
      body = Some (JObj [(''status'', JStr ''completed''),
                         (''output_file_id'', JStr ''file-out-1'')])\<rparr>"

definition example_workflow :: workflow where
  "example_workflow =
     \<lparr>file_id = JStr ''file-abc'', batch_id = JStr ''batch-1'', output_file_id = JNull,
      error_file_id = JNull, test_data = minimal_test_data\<rparr>"

text \<open>The answers \<open>in_progress\<close>, \<open>in_progress\<close>, \<open>completed\<close>.\<close>

definition example_server :: "nat \<Rightarrow> response" where
  "example_server i = (if i < 2 then status_response ''in_progress'' else completed_response)"

text \<open>A server that gives the same answer to every request.\<close>

definition always :: "response \<Rightarrow> nat \<Rightarrow> response" where
  "always r i = r"

text \<open>The state after a successful upload, before a batch exists.\<close>

definition uploaded_workflow :: workflow where
  "uploaded_workflow = (on_start None)\<lparr>file_id := JStr ''file-abc''\<rparr>"

text \<open>The violations named in the lines printed by the run-end hook.\<close>

fun violations_of :: "'a printed \<Rightarrow> 'a violation list" where
  "violations_of (AssertionFailures vs) = vs"
| "violations_of _ = []"

definition reported :: "'a stop_result \<Rightarrow> 'a violation list" where
  "reported r = concat (map violations_of (printed r))"

text \<open>
  An environment that sets the error-rate threshold to \<open>0.5\<close>, and \<open>float()\<close> on the
  two strings read from it; both values are exact as floats.
\<close>

definition example_env :: "string \<Rightarrow> string option" where
  "example_env k = (if k = ''ERROR_RATE_THRESHOLD'' then Some ''0.5'' else None)"

definition example_float :: "string \<Rightarrow> rat option" where
  "example_float v =
     (if v = ''1000'' then Some 1000 else if v = ''0.5'' then Some (1 / 2) else None)"

text \<open>An answer to a key-creation request that carries the key \<open>k\<close>.\<close>

definition key_response :: "string \<Rightarrow> response" where
  "key_response k = \<lparr>status_code = 201, body = Some (JObj [(''key'', JStr k)])\<rparr>"

text \<open>
  Two users enter \<open>on_start\<close> before either answer arrives; a third enters between the
  two answers and a fourth after both.
\<close>

definition overlapping_starts :: "step list" where
  "overlapping_starts =
     [Enter, Enter, Answer (key_response ''sk-1''), Enter, Answer (key_response ''sk-2''), Enter]"

section \<open>Upload: the two example responses\<close>

text \<open>
  C5. An upload answered with status 201 and body \<open>{"id": "file-abc"}\<close> stores
  \<open>"file-abc"\<close> in \<open>file_id\<close> and marks the request a success; an upload answered
  with status 500 marks it failed and leaves \<open>file_id\<close> (and the rest of the state)
  as it was, whatever the body.
\<close>

theorem upload_file_examples:
  "final (upload_file s \<lparr>status_code = 201, body = Some (JObj [(''id'', JStr ''file-abc'')])\<rparr>)
     = s\<lparr>file_id := JStr ''file-abc''\<rparr>
   \<and> events (upload_file s \<lparr>status_code = 201, body = Some (JObj [(''id'', JStr ''file-abc'')])\<rparr>)
     = [Request POST ''/ai/v1/files [upload]'', Success]
   \<and> final (upload_file s \<lparr>status_code = 500, body = b\<rparr>) = s
   \<and> events (upload_file s \<lparr>status_code = 500, body = b\<rparr>)
     = [Request POST ''/ai/v1/files [upload]'', Failure (UploadFailed 500)]"
  by (simp add: upload_file_def stop_def py_get_def)

section \<open>The polling loop, one attempt at a time\<close>

lemma running_not_terminal: "x \<in> set running_statuses \<Longrightarrow> x \<notin> set terminal_statuses"
  by (auto simp: running_statuses_def terminal_statuses_def)

lemma runningE:
  assumes "running r"
  obtains data where "status_code r = 200" "body r = Some (JObj data)"
    "py_get data ''status'' \<in> set running_statuses"
  using assms by (auto simp: running_def split: option.splits json.splits)

lemma poll_loop_running:
  assumes "i < max_polls" "running (srv i)"
  shows "poll_loop i iv s srv =
           emit [poll_request, Success, Sleep iv] (poll_loop (Suc i) (next_interval iv) s srv)"
proof -
  from assms(2) obtain data where d: "status_code (srv i) = 200" "body (srv i) = Some (JObj data)"
    "py_get data ''status'' \<in> set running_statuses" by (rule runningE)
  show ?thesis
    using assms(1) d running_not_terminal[OF d(3)]
    by (subst poll_loop.simps) (simp add: next_interval_def)
qed

lemma poll_loop_terminal:
  assumes "i < max_polls" "status_code (srv i) = 200" "body (srv i) = Some (JObj data)"
    "py_get data ''status'' \<in> set terminal_statuses"
  shows "poll_loop i iv s srv =
           stop (s\<lparr>output_file_id := py_get data ''output_file_id'',
                    error_file_id := py_get data ''error_file_id''\<rparr>) [poll_request, Success]"
  using assms by (subst poll_loop.simps) simp

lemma poll_loop_unknown:
  assumes "i < max_polls" "status_code (srv i) = 200" "body (srv i) = Some (JObj data)"
    "py_get data ''status'' \<notin> set terminal_statuses"
    "py_get data ''status'' \<notin> set running_statuses"
  shows "poll_loop i iv s srv =
           stop s [poll_request, Failure (UnknownStatus (py_get data ''status''))]"
  using assms by (subst poll_loop.simps) simp

lemma poll_loop_not_json:
  assumes "i < max_polls" "status_code (srv i) = 200" "body (srv i) = None"
  shows "poll_loop i iv s srv = stop s [poll_request, Failure PollParseFailed]"
  using assms by (subst poll_loop.simps) simp

lemma poll_loop_not_ok:
  assumes "i < max_polls" "status_code (srv i) \<noteq> 200"
  shows "poll_loop i iv s srv = stop s [poll_request, Failure (PollFailed (status_code (srv i)))]"
  using assms by (subst poll_loop.simps) simp

lemma poll_loop_exhausted:
  assumes "\<not> i < max_polls"
  shows "poll_loop i iv s srv = stop s [DidNotComplete (batch_id s) max_polls]"
  using assms by (subst poll_loop.simps) simp

lemma emit_emit: "emit es (emit fs r) = emit (es @ fs) r"
  by (simp add: emit_def)

lemma emit_Nil: "emit [] r = r"
  by (simp add: emit_def)

lemma poll_loop_rounds:
  assumes "j \<le> i" "i \<le> max_polls" "\<forall>k. j \<le> k \<and> k < i \<longrightarrow> running (srv k)"
  shows "poll_loop j iv s srv =
           emit (rounds j i iv) (poll_loop i ((next_interval ^^ (i - j)) iv) s srv)"
  using assms
proof (induction i rule: dec_induct)
  case base
  show ?case by (simp add: rounds_def emit_Nil)
next
  case (step n)
  then have IH: "poll_loop j iv s srv =
      emit (rounds j n iv) (poll_loop n ((next_interval ^^ (n - j)) iv) s srv)"
    by simp
  have "n < max_polls" "running (srv n)" using step by simp_all
  then have one: "poll_loop n ((next_interval ^^ (n - j)) iv) s srv =
      emit [poll_request, Success, Sleep ((next_interval ^^ (n - j)) iv)]
        (poll_loop (Suc n) (next_interval ((next_interval ^^ (n - j)) iv)) s srv)"
    by (rule poll_loop_running)
  have sn: "Suc n - j = Suc (n - j)" using step.hyps by simp
  show ?case
    using step.hyps by (simp add: IH one emit_emit rounds_def sn)
qed

lemma next_interval_pow: "(next_interval ^^ k) 2 = min (2 * (3 / 2) ^ k) 30"
proof (induction k)
  case 0
  show ?case by simp
next
  case (Suc k)
  have step: "(next_interval ^^ Suc k) 2 = next_interval (min (2 * (3 / 2) ^ k) 30)"
    using Suc by simp
  show ?case
  proof (cases "(2::rat) * (3 / 2) ^ k \<le> 30")
    case True
    then have "min (2 * (3 / 2) ^ k) (30::rat) = 2 * (3 / 2) ^ k" by simp
    then show ?thesis unfolding step by (simp add: next_interval_def)
  next
    case False
    then have big: "(30::rat) < 2 * (3 / 2) ^ k" by simp
    then have "min (2 * (3 / 2) ^ k) (30::rat) = 30" by simp
    moreover from big have "(30::rat) < 2 * (3 / 2) ^ Suc k" by simp
    then have "min (2 * (3 / 2) ^ Suc k) (30::rat) = 30" by simp
    ultimately show ?thesis unfolding step by (simp add: next_interval_def)
  qed
qed

lemma rounds_closed: "rounds 0 i 2 = running_rounds i"
  by (simp add: rounds_def running_rounds_def next_interval_pow)

lemma requests_stop: "requests (stop s es) = length (filter is_request es)"
  by (simp add: requests_def stop_def)

lemma requests_emit: "requests (emit es r) = length (filter is_request es) + requests r"
  by (simp add: requests_def emit_def)

lemma failures_stop: "failures (stop s es) = concat (map failure_of es)"
  by (simp add: failures_def stop_def)

lemma failures_emit: "failures (emit es r) = concat (map failure_of es) @ failures r"
  by (simp add: failures_def emit_def)

lemma requests_running_rounds: "length (filter is_request (running_rounds i)) = i"
  by (induction i) (simp_all add: running_rounds_def poll_request_def)

lemma failures_running_rounds: "concat (map failure_of (running_rounds i)) = []"
  by (induction i) (simp_all add: running_rounds_def poll_request_def)

lemma length_running_rounds: "length (running_rounds i) = 3 * i"
  by (induction i) (simp_all add: running_rounds_def)

lemma emit_stop: "emit es (stop s fs) = stop s (es @ fs)"
  by (simp add: emit_def stop_def)

lemma poll_prefix:
  assumes "truthy (batch_id s)" "i \<le> max_polls" "\<forall>k<i. running (srv k)"
  shows "poll_batch_status s srv =
           emit (running_rounds i) (poll_loop i ((next_interval ^^ i) 2) s srv)"
  using assms poll_loop_rounds[of 0 i srv 2 s]
  by (simp add: poll_batch_status_def rounds_closed)

lemma example_server_running: "k < 2 \<Longrightarrow> running (example_server k)"
  by (simp add: example_server_def status_response_def running_def py_get_def
      running_statuses_def)

lemma running_rounds_2:
  "running_rounds 2 = [poll_request, Success, Sleep 2, poll_request, Success, Sleep 3]"
  by (simp add: running_rounds_def numeral_2_eq_2)

section \<open>Polling: terminal statuses\<close>

text \<open>
  C1. When the batch exists and the attempts before \<open>i\<close> were answered with running
  statuses, an answer to attempt \<open>i\<close> (within the 60 attempts) with HTTP status 200
  whose \<open>status\<close> is \<open>completed\<close>, \<open>failed\<close>, \<open>cancelled\<close> or \<open>expired\<close> ends the
  step at once: the trace ends with that request and its success mark, \<open>i + 1\<close> status
  requests were issued in all, and \<open>output_file_id\<close> and \<open>error_file_id\<close> hold what the
  answer carries under these keys (\<open>None\<close> for a key that is absent). The status is
  read from the body only after the check \<open>status_code == 200\<close>.
\<close>

theorem poll_stops_at_terminal:
  assumes "truthy (batch_id s)" and "i < max_polls" and "\<forall>k<i. running (srv k)"
    and "status_code (srv i) = 200" and "body (srv i) = Some (JObj data)"
    and "py_get data ''status'' \<in> set terminal_statuses"
  shows "events (poll_batch_status s srv) = running_rounds i @ [poll_request, Success]
       \<and> requests (poll_batch_status s srv) = Suc i
       \<and> final (poll_batch_status s srv) =
           s\<lparr>output_file_id := py_get data ''output_file_id'',
             error_file_id := py_get data ''error_file_id''\<rparr>
       \<and> outcome (poll_batch_status s srv) = Returned"
proof -
  have "poll_batch_status s srv =
          stop (s\<lparr>output_file_id := py_get data ''output_file_id'',
                   error_file_id := py_get data ''error_file_id''\<rparr>)
               (running_rounds i @ [poll_request, Success])"
    using assms poll_prefix[of s i srv] by (simp add: poll_loop_terminal emit_stop)
  then show ?thesis
    by (simp add: stop_def requests_def requests_running_rounds poll_request_def)
qed

text \<open>
  The sequence \<open>in_progress\<close>, \<open>in_progress\<close>, \<open>completed\<close> with
  \<open>output_file_id = "file-out-1"\<close>: polling ends at the third answer.
\<close>

theorem poll_stops_at_terminal_witness:
  "running (example_server 0) \<and> running (example_server 1)
   \<and> events (poll_batch_status example_workflow example_server)
       = [poll_request, Success, Sleep 2, poll_request, Success, Sleep 3, poll_request, Success]
   \<and> requests (poll_batch_status example_workflow example_server) = 3
   \<and> output_file_id (final (poll_batch_status example_workflow example_server)) = JStr ''file-out-1''
   \<and> error_file_id (final (poll_batch_status example_workflow example_server)) = JNull"
proof -
  have r: "running (example_server 0)" "running (example_server 1)"
    by (simp_all add: example_server_running)
  have h1: "truthy (batch_id example_workflow)"
    by (simp add: example_workflow_def)
  have h2: "2 < max_polls"
    by (simp add: max_polls_def)
  have h3: "\<forall>k<2. running (example_server k)"
    by (simp add: example_server_running)
  have h4: "status_code (example_server 2) = 200"
    by (simp add: example_server_def completed_response_def)
  have h5: "body (example_server 2) =
      Some (JObj [(''status'', JStr ''completed''), (''output_file_id'', JStr ''file-out-1'')])"
    by (simp add: example_server_def completed_response_def)
  have h6: "py_get [(''status'', JStr ''completed''), (''output_file_id'', JStr ''file-out-1'')]
      ''status'' \<in> set terminal_statuses"
    by (simp add: py_get_def terminal_statuses_def)
  show ?thesis
    using r poll_stops_at_terminal [OF h1 h2 h3 h4 h5 h6]
    by (simp add: running_rounds_2 py_get_def)
qed

section \<open>Polling: running statuses and the backoff\<close>

lemma poll_loop_head:
  assumes "j < max_polls"
  shows "\<exists>es. events (poll_loop j iv s srv) = poll_request # es"
  using assms
  by (subst poll_loop.simps)
     (simp add: stop_def raise_def emit_def Let_def split: option.splits)

text \<open>
  C3, as stated, fails at the last attempt. Here every answer is \<open>in_progress\<close>;
  attempt 59 returns a running status, and no 61st status request follows.
\<close>

theorem poll_continues_counterexample:
  "running (always (status_response ''in_progress'') 59)
   \<and> \<not> 60 < requests (poll_batch_status example_workflow (always (status_response ''in_progress'')))"
proof -
  have run: "running (always (status_response ''in_progress'') k)" for k
    by (simp add: always_def status_response_def running_def py_get_def running_statuses_def)
  have "poll_batch_status example_workflow (always (status_response ''in_progress''))
          = stop example_workflow (running_rounds 60 @ [DidNotComplete (JStr ''batch-1'') 60])"
    using run poll_prefix[of example_workflow 60 "always (status_response ''in_progress'')"]
    by (simp add: poll_loop_exhausted emit_stop max_polls_def example_workflow_def)
  then show ?thesis
    using run by (simp add: requests_stop requests_running_rounds)
qed

text \<open>
  C3, amended. When the batch exists and the attempts \<open>0\<close> to \<open>i\<close> (within the 60
  attempts) are answered with running statuses, the step does not end at attempt
  \<open>i\<close>: the first \<open>3 * (i + 1)\<close> events are request, success mark and sleep for each of
  these attempts, and the sleep after attempt \<open>i\<close> lasts \<open>min (2 * 1.5 ^ i) 30\<close>
  seconds. A further status request follows whenever \<open>i + 1 < 60\<close>; after attempt 59
  the sleep still happens and the loop ends.
\<close>

theorem poll_backoff:
  assumes "truthy (batch_id s)" and "i < max_polls" and "\<forall>k\<le>i. running (srv k)"
  shows "take (3 * Suc i) (events (poll_batch_status s srv)) = running_rounds (Suc i)
       \<and> events (poll_batch_status s srv) ! (3 * i + 2) = Sleep (min (2 * (3 / 2) ^ i) 30)
       \<and> (Suc i < max_polls \<longrightarrow>
            events (poll_batch_status s srv) ! (3 * Suc i) = poll_request
            \<and> Suc i < requests (poll_batch_status s srv))"
proof -
  obtain iv where eq: "poll_batch_status s srv =
      emit (running_rounds (Suc i)) (poll_loop (Suc i) iv s srv)"
    using assms poll_prefix[of s "Suc i" srv] by (simp add: less_Suc_eq_le)
  let ?rest = "poll_loop (Suc i) iv s srv"
  have ev: "events (poll_batch_status s srv) = running_rounds (Suc i) @ events ?rest"
    by (simp add: eq emit_def)
  have len: "length (running_rounds (Suc i)) = 3 * Suc i"
    by (rule length_running_rounds)
  have a: "take (3 * Suc i) (events (poll_batch_status s srv)) = running_rounds (Suc i)"
    using len by (simp add: ev)
  have split: "running_rounds (Suc i) =
      running_rounds i @ [poll_request, Success, Sleep (min (2 * (3 / 2) ^ i) 30)]"
    by (simp add: running_rounds_def)
  have b: "events (poll_batch_status s srv) ! (3 * i + 2) = Sleep (min (2 * (3 / 2) ^ i) 30)"
    by (simp add: ev split nth_append length_running_rounds)
  have c: "events (poll_batch_status s srv) ! (3 * Suc i) = poll_request
            \<and> Suc i < requests (poll_batch_status s srv)" if "Suc i < max_polls"
  proof -
    from poll_loop_head[OF that] obtain es where es: "events ?rest = poll_request # es"
      by blast
    have "events (poll_batch_status s srv) ! (3 * Suc i) = poll_request"
      using len by (simp add: ev es nth_append)
    moreover have "Suc i < requests (poll_batch_status s srv)"
      by (simp add: requests_def ev es requests_running_rounds poll_request_def)
    ultimately show ?thesis by simp
  qed
  from a b c show ?thesis by blast
qed

text \<open>Attempt 1 of the example sequence: a sleep of 3 seconds, then the third request.\<close>

theorem poll_backoff_witness:
  "running (example_server 0) \<and> running (example_server 1)
   \<and> take 6 (events (poll_batch_status example_workflow example_server))
       = [poll_request, Success, Sleep 2, poll_request, Success, Sleep 3]
   \<and> events (poll_batch_status example_workflow example_server) ! 5 = Sleep 3
   \<and> events (poll_batch_status example_workflow example_server) ! 6 = poll_request
   \<and> 2 < requests (poll_batch_status example_workflow example_server)"
proof -
  have r: "running (example_server 0)" "running (example_server 1)"
    by (simp_all add: example_server_running)
  have h1: "truthy (batch_id example_workflow)"
    by (simp add: example_workflow_def)
  have h2: "1 < max_polls"
    by (simp add: max_polls_def)
  have h3: "\<forall>k\<le>1. running (example_server k)"
    by (simp add: example_server_running)
  have rr: "running_rounds (Suc (Suc 0)) =
      [poll_request, Success, Sleep 2, poll_request, Success, Sleep 3]"
    using running_rounds_2 by (simp add: numeral_2_eq_2)
  show ?thesis
    using r poll_backoff [OF h1 h2 h3]
    by (simp add: rr max_polls_def)
qed

text \<open>
  The interval only takes eight values, each a small multiple of \<open>1/32\<close>; these and
  their products with \<open>1.5\<close> are exact in binary floating point, so the rational
  arithmetic of the model is the arithmetic of the program.
\<close>

lemma interval_values:
  "(next_interval ^^ k) 2 \<in> {2, 3, 9 / 2, 27 / 4, 81 / 8, 243 / 16, 729 / 32, 30}"
proof (induction k)
  case 0
  show ?case by simp
next
  case (Suc k)
  have "(next_interval ^^ Suc k) 2 = next_interval ((next_interval ^^ k) 2)" by simp
  moreover have "next_interval x \<in> {2, 3, 9 / 2, 27 / 4, 81 / 8, 243 / 16, 729 / 32, 30}"
    if "x \<in> {2, 3, 9 / 2, 27 / 4, 81 / 8, 243 / 16, 729 / 32, 30}" for x
    using that by (auto simp: next_interval_def)
  ultimately show ?case using Suc by simp
qed

section \<open>Polling: unrecognised statuses\<close>

text \<open>
  C6. When the batch exists and the attempts before \<open>i\<close> were answered with running
  statuses, an answer to attempt \<open>i\<close> (within the 60 attempts) with HTTP status 200
  whose \<open>status\<close> field is none of the seven recognised values (an absent field
  reads as \<open>None\<close>) records the failure "Unknown batch status" and ends the step:
  the trace ends with that request and the failure, and \<open>i + 1\<close> requests were issued.
\<close>

theorem poll_unknown_status:
  assumes "truthy (batch_id s)" and "i < max_polls" and "\<forall>k<i. running (srv k)"
    and "status_code (srv i) = 200" and "body (srv i) = Some (JObj data)"
    and "py_get data ''status'' \<notin> set (terminal_statuses @ running_statuses)"
  shows "events (poll_batch_status s srv)
           = running_rounds i @ [poll_request, Failure (UnknownStatus (py_get data ''status''))]
       \<and> failures (poll_batch_status s srv) = [UnknownStatus (py_get data ''status'')]
       \<and> requests (poll_batch_status s srv) = Suc i
       \<and> final (poll_batch_status s srv) = s
       \<and> outcome (poll_batch_status s srv) = Returned"
proof -
  have "poll_batch_status s srv =
          stop s (running_rounds i @ [poll_request, Failure (UnknownStatus (py_get data ''status''))])"
    using assms poll_prefix[of s i srv] by (simp add: poll_loop_unknown emit_stop)
  then show ?thesis
    by (simp add: stop_def requests_def failures_def requests_running_rounds
        failures_running_rounds poll_request_def)
qed

text \<open>The status \<open>paused\<close> at the first attempt.\<close>

theorem poll_unknown_status_witness:
  "events (poll_batch_status example_workflow (always (status_response ''paused'')))
     = [poll_request, Failure (UnknownStatus (JStr ''paused''))]
   \<and> failures (poll_batch_status example_workflow (always (status_response ''paused'')))
     = [UnknownStatus (JStr ''paused'')]
   \<and> requests (poll_batch_status example_workflow (always (status_response ''paused''))) = 1"
proof -
  have h1: "truthy (batch_id example_workflow)"
    by (simp add: example_workflow_def)
  have h2: "0 < max_polls"
    by (simp add: max_polls_def)
  have h3: "\<forall>k<0. running (always (status_response ''paused'') k)"
    by simp
  have h4: "status_code (always (status_response ''paused'') 0) = 200"
    by (simp add: always_def status_response_def)
  have h5: "body (always (status_response ''paused'') 0) = Some (JObj [(''status'', JStr ''paused'')])"
    by (simp add: always_def status_response_def)
  have h6: "py_get [(''status'', JStr ''paused'')] ''status''
      \<notin> set (terminal_statuses @ running_statuses)"
    by (simp add: py_get_def terminal_statuses_def running_statuses_def)
  show ?thesis
    using poll_unknown_status [OF h1 h2 h3 h4 h5 h6]
    by (simp add: running_rounds_def py_get_def)
qed

section \<open>Steps without their prerequisite\<close>

text \<open>
  C7. A step whose prerequisite identifier is unset issues no HTTP call and records
  no failure: verify and create-batch without \<open>file_id\<close>, poll without \<open>batch_id\<close>,
  retrieve-output without \<open>output_file_id\<close>, retrieve-errors without \<open>error_file_id\<close>.
\<close>

theorem missing_prerequisite_skips:
  "(file_id s = JNull \<longrightarrow>
      requests (verify_upload s rnd r) = 0 \<and> failures (verify_upload s rnd r) = []
      \<and> requests (create_batch s r) = 0 \<and> failures (create_batch s r) = [])
   \<and> (batch_id s = JNull \<longrightarrow>
      requests (poll_batch_status s srv) = 0 \<and> failures (poll_batch_status s srv) = [])
   \<and> (output_file_id s = JNull \<longrightarrow>
      requests (retrieve_output s r) = 0 \<and> failures (retrieve_output s r) = [])
   \<and> (error_file_id s = JNull \<longrightarrow>
      requests (retrieve_errors s r) = 0 \<and> failures (retrieve_errors s r) = [])"
  by (simp add: verify_upload_def create_batch_def poll_batch_status_def retrieve_output_def
      retrieve_errors_def interrupt_def stop_def requests_def failures_def)

text \<open>The state right after \<open>on_start\<close>, where all four identifiers are unset.\<close>

theorem missing_prerequisite_skips_witness:
  "file_id (on_start None) = JNull \<and> batch_id (on_start None) = JNull
   \<and> output_file_id (on_start None) = JNull \<and> error_file_id (on_start None) = JNull
   \<and> requests (verify_upload (on_start None) 0 (status_response ''x'')) = 0
   \<and> failures (verify_upload (on_start None) 0 (status_response ''x'')) = []
   \<and> requests (create_batch (on_start None) (status_response ''x'')) = 0
   \<and> failures (create_batch (on_start None) (status_response ''x'')) = []
   \<and> requests (poll_batch_status (on_start None) (always (status_response ''x''))) = 0
   \<and> failures (poll_batch_status (on_start None) (always (status_response ''x''))) = []
   \<and> requests (retrieve_output (on_start None) (status_response ''x'')) = 0
   \<and> failures (retrieve_output (on_start None) (status_response ''x'')) = []
   \<and> requests (retrieve_errors (on_start None) (status_response ''x'')) = 0
   \<and> failures (retrieve_errors (on_start None) (status_response ''x'')) = []"
  using missing_prerequisite_skips [of "on_start None" 0 "status_response ''x''"
      "always (status_response ''x'')"]
  by (simp add: on_start_def)

section \<open>Polling: the attempt budget\<close>

lemma requests_poll_loop: "requests (poll_loop i iv s srv) \<le> max_polls - i"
proof (induction "max_polls - i" arbitrary: i iv)
  case 0
  then show ?case by (simp add: poll_loop_exhausted requests_stop)
next
  case (Suc n)
  then have lt: "i < max_polls" and n: "n = max_polls - Suc i" by simp_all
  have IH: "requests (poll_loop (Suc i) iv' s srv) \<le> n" for iv'
    using Suc.hyps(1)[OF n] n by simp
  have n1: "1 \<le> max_polls - i" using lt by simp
  show ?case
  proof (cases "running (srv i)")
    case True
    show ?thesis
      using IH[of "next_interval iv"] Suc.hyps(2)
      by (simp add: poll_loop_running[of i srv, OF lt True] requests_emit poll_request_def)
  next
    case False
    have "requests (poll_loop i iv s srv) \<le> 1"
      using lt False
      by (subst poll_loop.simps)
         (auto simp: requests_def stop_def raise_def emit_def poll_request_def running_def Let_def
               split: option.splits json.splits)
    with n1 show ?thesis by simp
  qed
qed


lemma always_running: "running (always (status_response ''in_progress'') k)"
  by (simp add: always_def status_response_def running_def py_get_def running_statuses_def)

text \<open>
  C8. The poll step issues at most 60 status requests, whatever the server answers;
  and when the batch exists and all 60 attempts are answered with running statuses,
  it issues exactly 60, records no failure, and ends by printing the
  "did not complete" line and returning.
\<close>

theorem poll_budget:
  "requests (poll_batch_status s srv) \<le> 60
   \<and> (truthy (batch_id s) \<and> (\<forall>k<60. running (srv k)) \<longrightarrow>
        requests (poll_batch_status s srv) = 60
        \<and> failures (poll_batch_status s srv) = []
        \<and> events (poll_batch_status s srv) = running_rounds 60 @ [DidNotComplete (batch_id s) 60]
        \<and> outcome (poll_batch_status s srv) = Returned
        \<and> final (poll_batch_status s srv) = s)"
proof -
  have bound: "requests (poll_batch_status s srv) \<le> 60"
    using requests_poll_loop[of 0 2 s srv]
    by (simp add: poll_batch_status_def interrupt_def requests_def max_polls_def)
  have full: "poll_batch_status s srv = stop s (running_rounds 60 @ [DidNotComplete (batch_id s) 60])"
    if "truthy (batch_id s)" "\<forall>k<60. running (srv k)"
    using that poll_prefix[of s 60 srv]
    by (simp add: poll_loop_exhausted emit_stop max_polls_def)
  show ?thesis
    using bound full
    by (auto simp: stop_def requests_def failures_def requests_running_rounds
        failures_running_rounds)
qed

text \<open>A server that answers \<open>in_progress\<close> for ever.\<close>

theorem poll_budget_witness:
  "truthy (batch_id example_workflow)
   \<and> running (always (status_response ''in_progress'') 0)
   \<and> running (always (status_response ''in_progress'') 59)
   \<and> requests (poll_batch_status example_workflow (always (status_response ''in_progress''))) = 60
   \<and> failures (poll_batch_status example_workflow (always (status_response ''in_progress''))) = []
   \<and> outcome (poll_batch_status example_workflow (always (status_response ''in_progress''))) = Returned
   \<and> last (events (poll_batch_status example_workflow (always (status_response ''in_progress''))))
       = DidNotComplete (JStr ''batch-1'') 60"
  using poll_budget [of example_workflow "always (status_response ''in_progress'')"] always_running
  by (simp add: example_workflow_def)

section \<open>Polling: what is left unchanged\<close>

text \<open>
  C10. When the batch exists and the step ends at attempt \<open>i\<close> for a reason other
  than a terminal status (a non-200 answer, a body that is not JSON, an unrecognised
  status, or \<open>i = 60\<close>: the budget is used up), the step returns with
  \<open>output_file_id\<close> and \<open>error_file_id\<close> as they were before it began.
\<close>

theorem poll_frame:
  assumes "truthy (batch_id s)" and "\<forall>k<i. running (srv k)"
    and "i < max_polls \<and>
           (status_code (srv i) \<noteq> 200
            \<or> body (srv i) = None
            \<or> (\<exists>data. body (srv i) = Some (JObj data)
                  \<and> py_get data ''status'' \<notin> set (terminal_statuses @ running_statuses)))
         \<or> i = max_polls"
  shows "output_file_id (final (poll_batch_status s srv)) = output_file_id s
       \<and> error_file_id (final (poll_batch_status s srv)) = error_file_id s
       \<and> outcome (poll_batch_status s srv) = Returned"
proof -
  have le: "i \<le> max_polls" using assms(3) by auto
  obtain iv where eq: "poll_batch_status s srv = emit (running_rounds i) (poll_loop i iv s srv)"
    using assms(1,2) le poll_prefix[of s i srv] by simp
  have "\<exists>es. poll_loop i iv s srv = stop s es"
  proof (cases "i < max_polls")
    case False
    then show ?thesis by (auto simp: poll_loop_exhausted)
  next
    case lt: True
    show ?thesis
    proof (cases "status_code (srv i) = 200")
      case False
      with lt show ?thesis by (auto simp: poll_loop_not_ok)
    next
      case ok: True
      show ?thesis
      proof (cases "body (srv i)")
        case None
        with lt ok show ?thesis by (auto simp: poll_loop_not_json)
      next
        case (Some d)
        with assms(3) lt ok obtain data where d: "body (srv i) = Some (JObj data)"
          and un: "py_get data ''status'' \<notin> set (terminal_statuses @ running_statuses)"
          by auto
        from un have "py_get data ''status'' \<notin> set terminal_statuses"
          "py_get data ''status'' \<notin> set running_statuses" by simp_all
        with lt ok d show ?thesis by (auto simp: poll_loop_unknown)
      qed
    qed
  qed
  then obtain es where "poll_loop i iv s srv = stop s es" by blast
  then show ?thesis by (simp add: eq emit_def stop_def)
qed

text \<open>A server that answers 500.\<close>

theorem poll_frame_witness:
  "output_file_id (final (poll_batch_status example_workflow (always \<lparr>status_code = 500, body = None\<rparr>)))
     = JNull
   \<and> error_file_id (final (poll_batch_status example_workflow (always \<lparr>status_code = 500, body = None\<rparr>)))
     = JNull
   \<and> outcome (poll_batch_status example_workflow (always \<lparr>status_code = 500, body = None\<rparr>)) = Returned"
proof -
  have h1: "truthy (batch_id example_workflow)"
    by (simp add: example_workflow_def)
  have h2: "\<forall>k<0. running (always \<lparr>status_code = 500, body = None\<rparr> k)"
    by simp
  have h3: "0 < max_polls \<and>
           (status_code (always \<lparr>status_code = 500, body = None\<rparr> 0) \<noteq> 200
            \<or> body (always \<lparr>status_code = 500, body = None\<rparr> 0) = None
            \<or> (\<exists>data. body (always \<lparr>status_code = 500, body = None\<rparr> 0) = Some (JObj data)
                  \<and> py_get data ''status'' \<notin> set (terminal_statuses @ running_statuses)))
         \<or> 0 = max_polls"
    by (simp add: max_polls_def always_def)
  show ?thesis
    using poll_frame [OF h1 h2 h3] by (simp add: example_workflow_def)
qed

section \<open>Create batch: a body without the identifier\<close>

text \<open>
  C4. The specification asks that a create-batch answer with a success status and no
  \<open>id\<close> in its body marks the step failed. The code does not: answered with status 200
  and the body \<open>{}\<close>, \<open>create_batch\<close> marks the request a success, records no
  failure and leaves \<open>batch_id\<close> at \<open>None\<close>. (\<open>upload_file\<close> checks the identifier
  it reads and fails the request when it is missing; \<open>create_batch\<close> lists
  \<open>KeyError\<close> in its \<open>except\<close> clause, which \<open>data.get\<close> never raises.)
\<close>

theorem create_batch_missing_id:
  "events (create_batch uploaded_workflow \<lparr>status_code = 200, body = Some (JObj [])\<rparr>)
     = [Request POST ''/ai/v1/batches [create]'', Success]
   \<and> failures (create_batch uploaded_workflow \<lparr>status_code = 200, body = Some (JObj [])\<rparr>) = []
   \<and> batch_id (final (create_batch uploaded_workflow \<lparr>status_code = 200, body = Some (JObj [])\<rparr>))
     = JNull"
  by (simp add: create_batch_def uploaded_workflow_def on_start_def stop_def failures_def
      py_get_def)

section \<open>The shared API key\<close>

text \<open>
  An \<open>on_start\<close> that is not interrupted is an \<open>Enter\<close> step followed at once by its
  \<open>Answer\<close>.
\<close>

lemma run_step_uninterrupted:
  assumes "in_post t = []"
  shows "run_step u p (run_step u p t Enter) (Answer r) =
           (if class_key t = JNull then
              t\<lparr>class_key := shared_api_key (user_on_start u p (class_key t) r),
                started := started t @ [(user_on_start u p (class_key t) r)
                                          \<lparr>user_events := tl (user_events (user_on_start u p (class_key t) r))\<rparr>],
                issued := issued t @ user_events (user_on_start u p (class_key t) r)\<rparr>
            else t\<lparr>started := started t @ [user_on_start u p (class_key t) r]\<rparr>)"
  using assms
  by (simp add: user_on_start_def create_shared_api_key_def Let_def)

text \<open>
  C2. The specification asks for at most one key-creation request in a run and for
  one token shared by every user that starts once the key exists. The code does
  neither when two \<open>on_start\<close> calls overlap: both users read \<open>None\<close> before either
  answer arrives, so two creation requests are issued; the second answer replaces
  the key of the first, and of the two users that start after a key exists one
  attaches \<open>sk-1\<close> and the other \<open>sk-2\<close>. (The comment in \<open>on_start\<close> says that only the
  first user creates the key, and the class declares a lock that it never takes.)
\<close>

theorem overlapping_starts_create_two_keys:
  "key_requests (run_users ''admin'' ''password'' overlapping_starts) = 2
   \<and> tokens (run_users ''admin'' ''password'' overlapping_starts)
       = [Some (JStr ''sk-1''), Some (JStr ''sk-1''), Some (JStr ''sk-2''), Some (JStr ''sk-2'')]
   \<and> map user_events (started (run_users ''admin'' ''password'' overlapping_starts))
       = [[], [], [], []]
   \<and> class_key (run_users ''admin'' ''password'' overlapping_starts) = JStr ''sk-2''"
  by (simp add: run_users_def overlapping_starts_def key_requests_def tokens_def
      handle_key_response_def use_existing_key_def initial_client_def key_response_def
      key_request_def py_get_def Let_def)

section \<open>The run-end hook: thresholds\<close>

text \<open>
  C9. For every pair of threshold values and every final statistics, the run-end hook
  returns normally; when the p95 latency exceeds its threshold the violation is among
  the printed assertion failures, and likewise for the error rate. No branch raises
  or exits after the two thresholds have been read.
\<close>

theorem threshold_violations_reported:
  assumes "to_float (getenv_default env ''P95_THRESHOLD_MS'' ''1000'') = Some p95_threshold_ms"
    and "to_float (getenv_default env ''ERROR_RATE_THRESHOLD'' ''0.01'') = Some error_rate_threshold"
  shows "stop_outcome (on_test_stop to_float env export_ok stats) = Returned
       \<and> (p95 stats > p95_threshold_ms \<longrightarrow>
            P95Exceeded (p95 stats) p95_threshold_ms
              \<in> set (reported (on_test_stop to_float env export_ok stats)))
       \<and> (fail_ratio stats > error_rate_threshold \<longrightarrow>
            ErrorRateExceeded (fail_ratio stats) error_rate_threshold
              \<in> set (reported (on_test_stop to_float env export_ok stats)))"
  using assms by (simp add: on_test_stop_def reported_def Let_def)

text \<open>The thresholds 1000 and 0.5, with both of them exceeded.\<close>

theorem threshold_violations_reported_witness:
  "stop_outcome (on_test_stop example_float example_env True \<lparr>p95 = 1500, fail_ratio = 3 / 4\<rparr>)
     = Returned
   \<and> reported (on_test_stop example_float example_env True \<lparr>p95 = 1500, fail_ratio = 3 / 4\<rparr>)
       = [P95Exceeded 1500 1000, ErrorRateExceeded (3 / 4) (1 / 2)]"
proof -
  have h1: "example_float (getenv_default example_env ''P95_THRESHOLD_MS'' ''1000'') = Some 1000"
    by (simp add: example_float_def getenv_default_def example_env_def)
  have h2: "example_float (getenv_default example_env ''ERROR_RATE_THRESHOLD'' ''0.01'')
      = Some (1 / 2)"
    by (simp add: example_float_def getenv_default_def example_env_def)
  have rep: "reported (on_test_stop example_float example_env True \<lparr>p95 = 1500, fail_ratio = 3 / 4\<rparr>)
      = [P95Exceeded 1500 1000, ErrorRateExceeded (3 / 4) (1 / 2)]"
    by (simp add: on_test_stop_def h1 h2 reported_def Let_def)
  show ?thesis
    using threshold_violations_reported [OF h1 h2, of True "\<lparr>p95 = 1500, fail_ratio = 3 / 4\<rparr>"] rep
    by simp
qed

end
